theory Spec2Isabelle
  imports Main "HOL-Library.AList"
begin

section \<open>Tenant configuration overlay of \<^verbatim>\<open>main_prod.py\<close>\<close>

text \<open>
  The module registers, on a Bolt application, a middleware that loads a workspace's
  OpenAI settings from a Google Cloud Storage bucket into the request context, a modal
  submission handler in two phases (validation, then saving), and two handlers that clean
  up after a token revocation or an uninstall. Every function of the module is embedded
  below as a HOL function of the same name. What the module only calls (the bucket, the
  installation store, the OpenAI client, \<^verbatim>\<open>json\<close>, \<^verbatim>\<open>translate\<close>, the constants of
  \<^verbatim>\<open>app.env\<close>) is an argument of the function that calls it or a model of its contract.
\<close>

subsection \<open>Python values, exceptions, the request context\<close>

text \<open>
  A value that comes out of \<^verbatim>\<open>json.loads\<close> or is stored in the context. A dict keeps its
  items in insertion order with distinct keys. A number is kept as its decimal literal:
  this program stores and copies numbers and never computes with one.
\<close>

datatype json =
    JNull
  | JBool bool
  | JNum string
  | JStr string
  | JArr "json list"
  | JObj "(string \<times> json) list"

datatype exn =
    NotFound
  | ServiceUnavailable
  | JSONDecodeError
  | AttributeError
  | APIError

text \<open>\<^verbatim>\<open>d.get(k)\<close> and \<^verbatim>\<open>d.get(k, default)\<close> on a dict.\<close>

definition dict_get :: "(string \<times> json) list \<Rightarrow> string \<Rightarrow> json" where
  "dict_get d k = (case map_of d k of None \<Rightarrow> JNull | Some v \<Rightarrow> v)"

definition dict_get_default :: "(string \<times> json) list \<Rightarrow> string \<Rightarrow> json \<Rightarrow> json" where
  "dict_get_default d k dflt = (case map_of d k of None \<Rightarrow> dflt | Some v \<Rightarrow> v)"

text \<open>
  The \<^verbatim>\<open>BoltContext\<close>: the identity of the workspace the request belongs to and the
  dict entries the listeners read and write. The team id is taken as present.
\<close>

record bolt_context =
  enterprise_id :: "string option"
  team_id :: string
  items :: "string \<rightharpoonup> json"

definition ctx_set :: "bolt_context \<Rightarrow> string \<Rightarrow> json \<Rightarrow> bolt_context" where
  "ctx_set ctx k v = ctx\<lparr>items := (items ctx)(k \<mapsto> v)\<rparr>"

definition ctx_get :: "bolt_context \<Rightarrow> string \<Rightarrow> json" where
  "ctx_get ctx k = (case items ctx k of None \<Rightarrow> JNull | Some v \<Rightarrow> v)"

text \<open>
  The constants the module imports from \<^verbatim>\<open>app.env\<close>, which is not part of the module:
  they are a parameter of every function that reads one.
\<close>

record app_env =
  OPENAI_MODEL :: json
  OPENAI_TEMPERATURE :: json
  OPENAI_IMAGE_GENERATION_MODEL :: json
  OPENAI_API_TYPE :: json
  OPENAI_API_BASE :: json
  OPENAI_API_VERSION :: json
  OPENAI_DEPLOYMENT_ID :: json
  OPENAI_ORG_ID :: json
  OPENAI_FUNCTION_CALL_MODULE_NAME :: json

subsection \<open>The bucket, the installation store, the log\<close>

text \<open>
  Modelled from the spec: the Blob Store Adapter (section 6), \<^verbatim>\<open>get(key) -> bytes | absent\<close>,
  \<^verbatim>\<open>put(key, bytes)\<close>, \<^verbatim>\<open>delete(key)\<close>, keyed by workspace identifier. The bucket is a
  map from blob names to their text. A call to the storage service may fail as a whole
  (the first argument, the exception the service raises, if any); reading or deleting a
  blob that does not exist raises \<open>NotFound\<close>, as the storage client does.
\<close>

type_synonym bucket = "string \<rightharpoonup> string"

definition download_as_text :: "exn option \<Rightarrow> bucket \<Rightarrow> string \<Rightarrow> exn + string" where
  "download_as_text fault b name =
     (case fault of
        Some e \<Rightarrow> Inl e
      | None \<Rightarrow> (case b name of None \<Rightarrow> Inl NotFound | Some text \<Rightarrow> Inr text))"

definition upload_from_string :: "exn option \<Rightarrow> bucket \<Rightarrow> string \<Rightarrow> string \<Rightarrow> exn + bucket" where
  "upload_from_string fault b name text =
     (case fault of
        Some e \<Rightarrow> Inl e
      | None \<Rightarrow> Inr (b(name \<mapsto> text)))"

definition blob_delete :: "exn option \<Rightarrow> bucket \<Rightarrow> string \<Rightarrow> exn + bucket" where
  "blob_delete fault b name =
     (case fault of
        Some e \<Rightarrow> Inl e
      | None \<Rightarrow> (case b name of None \<Rightarrow> Inl NotFound | Some _ \<Rightarrow> Inr (b(name := None))))"

datatype log_entry =
    DeleteFailed string exn
  | SaveFailed exn

text \<open>
  Everything outside the process that the handlers change: the bucket, the installation
  store (user installations keyed by enterprise, team and user; bot installations keyed
  by enterprise and team) and the log.
\<close>

record world =
  bucket :: bucket
  installations :: "(string option \<times> string \<times> string) set"
  bots :: "(string option \<times> string) set"
  log :: "log_entry list"

text \<open>
  Modelled from the spec: the Install/State Store (section 6), an opaque external store
  keyed by (enterprise, team, user) supporting delete-by-scope. Deleting a scope removes
  the records in it and is a no-operation when there are none.
\<close>

definition delete_installation :: "world \<Rightarrow> string option \<Rightarrow> string \<Rightarrow> string \<Rightarrow> world" where
  "delete_installation w e t u = w\<lparr>installations := installations w - {(e, t, u)}\<rparr>"

definition delete_bot :: "world \<Rightarrow> string option \<Rightarrow> string \<Rightarrow> world" where
  "delete_bot w e t = w\<lparr>bots := bots w - {(e, t)}\<rparr>"

definition delete_all :: "world \<Rightarrow> string option \<Rightarrow> string \<Rightarrow> world" where
  "delete_all w e t =
     w\<lparr>bots := bots w - {(e, t)},
       installations := installations w - {e} \<times> {t} \<times> UNIV\<rparr>"

subsection \<open>The middleware \<^verbatim>\<open>set_gcs_openai_api_key\<close>\<close>

definition startswith :: "string \<Rightarrow> string \<Rightarrow> bool" where
  "startswith s p = (take (length p) s = p)"

text \<open>
  The body of the \<^verbatim>\<open>try\<close>: \<open>Inl\<close> is the exception it raises. \<^verbatim>\<open>json.loads\<close> is the
  argument \<open>loads\<close>, \<open>None\<close> where it raises. Calling \<^verbatim>\<open>get\<close> on a value that is not a
  dict raises before the first assignment.
\<close>

definition load_config ::
  "app_env \<Rightarrow> (string \<Rightarrow> json option) \<Rightarrow> exn option \<Rightarrow> bucket \<Rightarrow> bolt_context \<Rightarrow> exn + bolt_context" where
  "load_config E loads fault b ctx =
     (case download_as_text fault b (team_id ctx) of
        Inl e \<Rightarrow> Inl e
      | Inr config_str \<Rightarrow>
          if startswith config_str ''{'' then
            (case loads config_str of
               None \<Rightarrow> Inl JSONDecodeError
             | Some (JObj config) \<Rightarrow>
                 Inr (ctx_set (ctx_set (ctx_set (ctx_set ctx
                   ''OPENAI_API_KEY'' (dict_get config ''api_key''))
                   ''OPENAI_MODEL'' (dict_get config ''model''))
                   ''OPENAI_IMAGE_GENERATION_MODEL''
                     (dict_get_default config ''image_generation_model'' (OPENAI_IMAGE_GENERATION_MODEL E)))
                   ''OPENAI_TEMPERATURE''
                     (dict_get_default config ''temperature'' (OPENAI_TEMPERATURE E)))
             | Some _ \<Rightarrow> Inl AttributeError)
          else
            Inr (ctx_set (ctx_set (ctx_set (ctx_set ctx
              ''OPENAI_API_KEY'' (JStr config_str))
              ''OPENAI_MODEL'' (OPENAI_MODEL E))
              ''OPENAI_IMAGE_GENERATION_MODEL'' (OPENAI_IMAGE_GENERATION_MODEL E))
              ''OPENAI_TEMPERATURE'' (OPENAI_TEMPERATURE E)))"

text \<open>The bare \<^verbatim>\<open>except:\<close> and the six assignments after it.\<close>

definition enrich ::
  "app_env \<Rightarrow> (string \<Rightarrow> json option) \<Rightarrow> exn option \<Rightarrow> bucket \<Rightarrow> bolt_context \<Rightarrow> bolt_context" where
  "enrich E loads fault b ctx =
     (let ctx1 =
        (case load_config E loads fault b ctx of
           Inr c \<Rightarrow> c
         | Inl _ \<Rightarrow>
             ctx_set (ctx_set (ctx_set (ctx_set ctx
               ''OPENAI_API_KEY'' JNull)
               ''OPENAI_MODEL'' JNull)
               ''OPENAI_IMAGE_GENERATION_MODEL'' JNull)
               ''OPENAI_TEMPERATURE'' JNull)
      in ctx_set (ctx_set (ctx_set (ctx_set (ctx_set (ctx_set ctx1
           ''OPENAI_API_TYPE'' (OPENAI_API_TYPE E))
           ''OPENAI_API_BASE'' (OPENAI_API_BASE E))
           ''OPENAI_API_VERSION'' (OPENAI_API_VERSION E))
           ''OPENAI_DEPLOYMENT_ID'' (OPENAI_DEPLOYMENT_ID E))
           ''OPENAI_ORG_ID'' (OPENAI_ORG_ID E))
           ''OPENAI_FUNCTION_CALL_MODULE_NAME'' (OPENAI_FUNCTION_CALL_MODULE_NAME E))"

text \<open>The middleware ends with \<^verbatim>\<open>next_()\<close>: the rest of the pipeline, \<open>next_stage\<close>, runs on
  the context.\<close>

definition set_gcs_openai_api_key ::
  "app_env \<Rightarrow> (string \<Rightarrow> json option) \<Rightarrow> exn option \<Rightarrow> bucket \<Rightarrow> bolt_context
     \<Rightarrow> (bolt_context \<Rightarrow> 'r) \<Rightarrow> 'r" where
  "set_gcs_openai_api_key E loads fault b ctx next_stage = next_stage (enrich E loads fault b ctx)"

subsection \<open>The revocation handlers\<close>

text \<open>
  The payload of a \<^verbatim>\<open>tokens_revoked\<close> event: \<^verbatim>\<open>event.get("tokens", {})\<close> and, in it, the
  lists under \<^verbatim>\<open>"oauth"\<close> and \<^verbatim>\<open>"bot"\<close>. \<open>None\<close> is a missing key, read as the default.
\<close>

record token_lists =
  oauth :: "string list option"
  bot :: "string list option"

record tokens_revoked_event =
  tokens :: "token_lists option"

definition revoked_oauth :: "tokens_revoked_event \<Rightarrow> string list" where
  "revoked_oauth event =
     (case tokens event of
        None \<Rightarrow> []
      | Some t \<Rightarrow> (case oauth t of None \<Rightarrow> [] | Some ids \<Rightarrow> ids))"

definition revoked_bot :: "tokens_revoked_event \<Rightarrow> string list" where
  "revoked_bot event =
     (case tokens event of
        None \<Rightarrow> []
      | Some t \<Rightarrow> (case bot t of None \<Rightarrow> [] | Some ids \<Rightarrow> ids))"

text \<open>
  The \<^verbatim>\<open>try\<close> block both handlers end with: delete the workspace's blob; an exception is
  caught and logged.
\<close>

definition delete_openai_auth_key :: "exn option \<Rightarrow> bolt_context \<Rightarrow> world \<Rightarrow> world" where
  "delete_openai_auth_key fault ctx w =
     (case blob_delete fault (bucket w) (team_id ctx) of
        Inr b \<Rightarrow> w\<lparr>bucket := b\<rparr>
      | Inl e \<Rightarrow> w\<lparr>log := log w @ [DeleteFailed (team_id ctx) e]\<rparr>)"

definition handle_tokens_revoked_events ::
  "exn option \<Rightarrow> tokens_revoked_event \<Rightarrow> bolt_context \<Rightarrow> world \<Rightarrow> world" where
  "handle_tokens_revoked_events fault event ctx w =
     (let user_ids = revoked_oauth event;
          w1 = (if length user_ids > 0
                then fold (\<lambda>user_id w'. delete_installation w' (enterprise_id ctx) (team_id ctx) user_id)
                       user_ids w
                else w);
          bots = revoked_bot event
      in if length bots > 0
         then delete_openai_auth_key fault ctx (delete_bot w1 (enterprise_id ctx) (team_id ctx))
         else w1)"

definition handle_app_uninstalled_events :: "exn option \<Rightarrow> bolt_context \<Rightarrow> world \<Rightarrow> world" where
  "handle_app_uninstalled_events fault ctx w =
     delete_openai_auth_key fault ctx (delete_all w (enterprise_id ctx) (team_id ctx))"

subsection \<open>The \<^verbatim>\<open>configure\<close> modal: validation and saving\<close>

text \<open>
  The submitted view, taken as well formed: \<^verbatim>\<open>inputs["api_key"]["input"]["value"]\<close> and
  \<^verbatim>\<open>inputs["model"]["input"]["selected_option"]["value"]\<close>.
\<close>

record view_submission =
  api_key_value :: string
  model_value :: string

text \<open>What \<^verbatim>\<open>ack\<close> is called with: nothing, or \<^verbatim>\<open>response_action="errors"\<close> and the errors.\<close>

datatype ack_response =
    AckOk
  | AckErrors "(string \<times> string) list"

text \<open>
  \<^verbatim>\<open>client.models.retrieve\<close> of a client made with a key is the argument \<open>retrieve\<close>: the
  exception the call raises for a key and a model, \<open>None\<close> when it returns. \<^verbatim>\<open>translate\<close>
  of \<^verbatim>\<open>app.i18n\<close> is the argument \<open>translate\<close>: the localized text, or the exception it
  raises (it is called with the credential the workspace already has).
\<close>

definition error_text ::
  "(json \<Rightarrow> bolt_context \<Rightarrow> string \<Rightarrow> exn + string) \<Rightarrow> bolt_context \<Rightarrow> string
     \<Rightarrow> exn + string" where
  "error_text translate ctx text =
     (let already_set_api_key = ctx_get ctx ''OPENAI_API_KEY''
      in if already_set_api_key \<noteq> JNull then translate already_set_api_key ctx text
         else Inr text)"

text \<open>
  The handler of the outer \<^verbatim>\<open>try\<close> (lines 204 to 213). An exception raised in it leaves
  the function: \<open>Inl\<close> is that exception, and \<^verbatim>\<open>ack\<close> has not been called.
\<close>

definition reject_api_key ::
  "(json \<Rightarrow> bolt_context \<Rightarrow> string \<Rightarrow> exn + string) \<Rightarrow> bolt_context \<Rightarrow> world
     \<Rightarrow> (exn + ack_response) \<times> world" where
  "reject_api_key translate ctx w =
     (case error_text translate ctx ''This API key seems to be invalid'' of
        Inl e \<Rightarrow> (Inl e, w)
      | Inr text \<Rightarrow> (Inr (AckErrors [(''api_key'', text)]), w))"

text \<open>
  The inner \<^verbatim>\<open>try\<close> and its handler (lines 189 to 202) are inside the outer \<^verbatim>\<open>try\<close>: an
  exception raised in the inner handler is caught by the outer one.
\<close>

definition validate_api_key_registration ::
  "(string \<Rightarrow> string \<Rightarrow> exn option) \<Rightarrow> (json \<Rightarrow> bolt_context \<Rightarrow> string \<Rightarrow> exn + string)
     \<Rightarrow> view_submission \<Rightarrow> bolt_context \<Rightarrow> world \<Rightarrow> (exn + ack_response) \<times> world" where
  "validate_api_key_registration retrieve translate view ctx w =
     (let api_key = api_key_value view;
          model = model_value view
      in case retrieve api_key ''gpt-3.5-turbo'' of
           None \<Rightarrow>
             (case retrieve api_key model of
                None \<Rightarrow> (Inr AckOk, w)
              | Some _ \<Rightarrow>
                  (case error_text translate ctx
                          ''This model is not yet available for this API key'' of
                     Inr text \<Rightarrow> (Inr (AckErrors [(''model'', text)]), w)
                   | Inl _ \<Rightarrow> reject_api_key translate ctx w))
         | Some _ \<Rightarrow> reject_api_key translate ctx w)"

text \<open>\<^verbatim>\<open>json.dumps\<close> is the argument \<open>dumps\<close>.\<close>

definition save_api_key_registration ::
  "(string \<Rightarrow> string \<Rightarrow> exn option) \<Rightarrow> (json \<Rightarrow> string) \<Rightarrow> exn option
     \<Rightarrow> view_submission \<Rightarrow> bolt_context \<Rightarrow> world \<Rightarrow> world" where
  "save_api_key_registration retrieve dumps fault view ctx w =
     (let api_key = api_key_value view;
          model = model_value view
      in case retrieve api_key model of
           Some e \<Rightarrow> w\<lparr>log := log w @ [SaveFailed e]\<rparr>
         | None \<Rightarrow>
             (case upload_from_string fault (bucket w) (team_id ctx)
                     (dumps (JObj [(''api_key'', JStr api_key), (''model'', JStr model)])) of
                Inr b \<Rightarrow> w\<lparr>bucket := b\<rparr>
              | Inl e \<Rightarrow> w\<lparr>log := log w @ [SaveFailed e]\<rparr>))"

text \<open>
  \<^verbatim>\<open>app.view("configure")(ack=..., lazy=[...])\<close>: the response to the user is what the
  \<^verbatim>\<open>ack\<close> function passes to \<^verbatim>\<open>ack\<close>; the lazy function runs whatever that response is and
  has no way to answer. The credential provider may have changed between the two.
\<close>

definition configure_view ::
  "(string \<Rightarrow> string \<Rightarrow> exn option) \<Rightarrow> (json \<Rightarrow> bolt_context \<Rightarrow> string \<Rightarrow> exn + string)
     \<Rightarrow> (string \<Rightarrow> string \<Rightarrow> exn option) \<Rightarrow> (json \<Rightarrow> string) \<Rightarrow> exn option
     \<Rightarrow> view_submission \<Rightarrow> bolt_context \<Rightarrow> world \<Rightarrow> (exn + ack_response) \<times> world" where
  "configure_view retrieve_ack translate retrieve_lazy dumps fault view ctx w =
     (case validate_api_key_registration retrieve_ack translate view ctx w of
        (response, w1) \<Rightarrow> (response, save_api_key_registration retrieve_lazy dumps fault view ctx w1))"

subsection \<open>Loading and saving a record\<close>

text \<open>
  The spec speaks of a \<open>TenantConfigRecord\<close> and of \<open>load\<close> and \<open>save\<close>. In the module,
  loading is the middleware and saving is the lazy listener of the modal. The record that
  \<open>load\<close> returns is made of the four credential entries the middleware leaves in the
  context; \<open>NotConfigured\<close> is the record whose entries are all \<^verbatim>\<open>None\<close>. Saving a record
  runs the lazy listener on a view that carries the record's key and model: the modal has
  no other input.
\<close>

record tenant_config_record =
  apiKey :: json
  model :: json
  imageModel :: json
  temperature :: json

definition credentials :: "bolt_context \<Rightarrow> tenant_config_record" where
  "credentials ctx =
     \<lparr>apiKey = ctx_get ctx ''OPENAI_API_KEY'',
      model = ctx_get ctx ''OPENAI_MODEL'',
      imageModel = ctx_get ctx ''OPENAI_IMAGE_GENERATION_MODEL'',
      temperature = ctx_get ctx ''OPENAI_TEMPERATURE''\<rparr>"

definition not_configured :: tenant_config_record where
  "not_configured = \<lparr>apiKey = JNull, model = JNull, imageModel = JNull, temperature = JNull\<rparr>"

definition load_record ::
  "app_env \<Rightarrow> (string \<Rightarrow> json option) \<Rightarrow> exn option \<Rightarrow> bucket \<Rightarrow> bolt_context
     \<Rightarrow> tenant_config_record" where
  "load_record E loads fault b ctx = set_gcs_openai_api_key E loads fault b ctx credentials"

definition save_record ::
  "(string \<Rightarrow> string \<Rightarrow> exn option) \<Rightarrow> (json \<Rightarrow> string) \<Rightarrow> exn option
     \<Rightarrow> tenant_config_record \<Rightarrow> bolt_context \<Rightarrow> world \<Rightarrow> world" where
  "save_record retrieve dumps fault r ctx w =
     (case (apiKey r, model r) of
        (JStr k, JStr m) \<Rightarrow>
          save_api_key_registration retrieve dumps fault
            \<lparr>api_key_value = k, model_value = m\<rparr> ctx w
      | _ \<Rightarrow> w)"

subsection \<open>A JSON codec to run the functions on concrete payloads\<close>

text \<open>
  The functions above take \<^verbatim>\<open>json.loads\<close> and \<^verbatim>\<open>json.dumps\<close> as arguments, and what is
  proved of them holds for every such pair. To evaluate them on a concrete payload the
  arguments have to be given: \<open>json_dumps\<close> writes a value as Python does by default, and
  \<open>flat_json_loads\<close> reads the part of JSON this program writes and is documented to
  read, which is a scalar or an object whose values are scalars, with the two-character
  string escapes and numbers without exponent. On any other text \<open>flat_json_loads\<close> is
  \<open>None\<close>: the text is outside that part, not necessarily outside JSON.
\<close>

text \<open>The double quote and the backslash.\<close>

definition dq :: char where "dq = CHR 0x22"
definition bs :: char where "bs = CHR 0x5C"

definition is_ws :: "char \<Rightarrow> bool" where
  "is_ws c = (c = CHR '' '' \<or> c = CHR 0x09 \<or> c = CHR 0x0A \<or> c = CHR 0x0D)"

definition is_punct :: "char \<Rightarrow> bool" where
  "is_punct c = (c \<in> set ''{}[]:,'')"

definition is_digit :: "char \<Rightarrow> bool" where
  "is_digit c = (c \<in> set ''0123456789'')"

definition is_control :: "char \<Rightarrow> bool" where
  "is_control c = ((of_char c :: nat) < 32)"

text \<open>
  The decoder reads the text into tokens with a four-state scanner, then reads the tokens
  as a scalar or as an object of scalars. Inside a string a control character is an error,
  as in Python's strict mode. A number is an integer part and an optional fraction.
\<close>

datatype token = TPunct char | TStr string | TLit json

definition valid_number :: "string \<Rightarrow> bool" where
  "valid_number s =
     (let u = (case s of [] \<Rightarrow> [] | c # r \<Rightarrow> if c = CHR ''-'' then r else s);
          ip = takeWhile is_digit u;
          rest = dropWhile is_digit u
      in ip \<noteq> [] \<and> (hd ip \<noteq> CHR ''0'' \<or> length ip = 1) \<and>
         (rest = [] \<or> (hd rest = CHR ''.'' \<and> tl rest \<noteq> [] \<and> list_all is_digit (tl rest))))"

definition atom_token :: "string \<Rightarrow> token option" where
  "atom_token a =
     (if a = ''true'' then Some (TLit (JBool True))
      else if a = ''false'' then Some (TLit (JBool False))
      else if a = ''null'' then Some (TLit JNull)
      else if valid_number a then Some (TLit (JNum a))
      else None)"

definition unescape :: "char \<Rightarrow> char option" where
  "unescape c =
     (if c = dq \<or> c = bs \<or> c = CHR ''/'' then Some c
      else if c = CHR ''b'' then Some (CHR 0x08)
      else if c = CHR ''f'' then Some (CHR 0x0C)
      else if c = CHR ''n'' then Some (CHR 0x0A)
      else if c = CHR ''r'' then Some (CHR 0x0D)
      else if c = CHR ''t'' then Some (CHR 0x09)
      else None)"

datatype lex_state = Outside | InString string | InEscape string | InAtom string

fun lex :: "lex_state \<Rightarrow> token list \<Rightarrow> string \<Rightarrow> token list option" where
  "lex Outside acc [] = Some (rev acc)"
| "lex (InAtom a) acc [] =
     (case atom_token (rev a) of None \<Rightarrow> None | Some t \<Rightarrow> Some (rev (t # acc)))"
| "lex (InString s) acc [] = None"
| "lex (InEscape s) acc [] = None"
| "lex Outside acc (c # cs) =
     (if is_ws c then lex Outside acc cs
      else if c = dq then lex (InString []) acc cs
      else if is_punct c then lex Outside (TPunct c # acc) cs
      else lex (InAtom [c]) acc cs)"
| "lex (InString s) acc (c # cs) =
     (if c = dq then lex Outside (TStr (rev s) # acc) cs
      else if c = bs then lex (InEscape s) acc cs
      else if is_control c then None
      else lex (InString (c # s)) acc cs)"
| "lex (InEscape s) acc (c # cs) =
     (case unescape c of None \<Rightarrow> None | Some d \<Rightarrow> lex (InString (d # s)) acc cs)"
| "lex (InAtom a) acc (c # cs) =
     (if is_ws c \<or> is_punct c \<or> c = dq then
        (case atom_token (rev a) of
           None \<Rightarrow> None
         | Some t \<Rightarrow>
             if is_ws c then lex Outside (t # acc) cs
             else if c = dq then lex (InString []) (t # acc) cs
             else lex Outside (TPunct c # t # acc) cs)
      else lex (InAtom (c # a)) acc cs)"

fun scalar :: "token \<Rightarrow> json option" where
  "scalar (TStr s) = Some (JStr s)"
| "scalar (TLit v) = Some v"
| "scalar (TPunct c) = None"

fun members :: "token list \<Rightarrow> (string \<times> json) list option" where
  "members (TStr k # TPunct c # v # TPunct d # rest) =
     (if c \<noteq> CHR '':'' then None
      else case scalar v of
        None \<Rightarrow> None
      | Some j \<Rightarrow>
          if d = CHR ''}'' \<and> rest = [] then Some [(k, j)]
          else if d = CHR '','' then
            (case members rest of None \<Rightarrow> None | Some kvs \<Rightarrow> Some ((k, j) # kvs))
          else None)"
| "members _ = None"

text \<open>A dict made of pairs in order: a key that comes again replaces the value in place.\<close>

definition dict_of :: "(string \<times> json) list \<Rightarrow> (string \<times> json) list" where
  "dict_of pairs = fold (\<lambda>kv d. AList.update (fst kv) (snd kv) d) pairs []"

definition flat_json_loads :: "string \<Rightarrow> json option" where
  "flat_json_loads s =
     (case lex Outside [] s of
        None \<Rightarrow> None
      | Some [] \<Rightarrow> None
      | Some [t] \<Rightarrow> scalar t
      | Some (t # ms) \<Rightarrow>
          if t \<noteq> TPunct (CHR ''{'') then None
          else if ms = [TPunct (CHR ''}'')] then Some (JObj [])
          else (case members ms of None \<Rightarrow> None | Some pairs \<Rightarrow> Some (JObj (dict_of pairs))))"

text \<open>
  The encoder, with Python's default separators and \<^verbatim>\<open>ensure_ascii\<close>: a character outside
  the printable ASCII range is written as a \<^verbatim>\<open>\u00XX\<close> escape.
\<close>

definition hex_digit :: "nat \<Rightarrow> char" where
  "hex_digit n = ''0123456789abcdef'' ! (n mod 16)"

definition escape_char :: "char \<Rightarrow> string" where
  "escape_char c =
     (if c = dq then [bs, dq]
      else if c = bs then [bs, bs]
      else if c = CHR 0x0A then [bs, CHR ''n'']
      else if c = CHR 0x0D then [bs, CHR ''r'']
      else if c = CHR 0x09 then [bs, CHR ''t'']
      else if c = CHR 0x0C then [bs, CHR ''f'']
      else if c = CHR 0x08 then [bs, CHR ''b'']
      else if (of_char c :: nat) < 32 \<or> 126 < (of_char c :: nat)
        then [bs, CHR ''u'', CHR ''0'', CHR ''0'', hex_digit (of_char c div 16), hex_digit (of_char c)]
      else [c])"

definition quote :: "string \<Rightarrow> string" where
  "quote s = dq # concat (map escape_char s) @ [dq]"

fun join :: "string \<Rightarrow> string list \<Rightarrow> string" where
  "join sep [] = []"
| "join sep [x] = x"
| "join sep (x # y # ys) = x @ sep @ join sep (y # ys)"

fun json_dumps :: "json \<Rightarrow> string" where
  "json_dumps JNull = ''null''"
| "json_dumps (JBool b) = (if b then ''true'' else ''false'')"
| "json_dumps (JNum n) = n"
| "json_dumps (JStr s) = quote s"
| "json_dumps (JArr xs) = ''['' @ join '', '' (map json_dumps xs) @ '']''"
| "json_dumps (JObj kvs) =
     ''{'' @ join '', '' (map (\<lambda>kv. quote (fst kv) @ '': '' @ json_dumps (snd kv)) kvs) @ ''}''"

subsection \<open>Concrete values\<close>

text \<open>Example values for the constants of \<^verbatim>\<open>app.env\<close>.\<close>

definition example_env :: app_env where
  "example_env =
     \<lparr>OPENAI_MODEL = JStr ''gpt-3.5-turbo'',
      OPENAI_TEMPERATURE = JNum ''1.0'',
      OPENAI_IMAGE_GENERATION_MODEL = JStr ''dall-e-3'',
      OPENAI_API_TYPE = JNull,
      OPENAI_API_BASE = JStr ''https://api.openai.com/v1'',
      OPENAI_API_VERSION = JStr ''2023-05-15'',
      OPENAI_DEPLOYMENT_ID = JNull,
      OPENAI_ORG_ID = JNull,
      OPENAI_FUNCTION_CALL_MODULE_NAME = JNull\<rparr>"

text \<open>A request of workspace \<open>T2\<close>, and a world in which \<open>T2\<close> is installed and configured.\<close>

definition example_ctx :: bolt_context where
  "example_ctx = \<lparr>enterprise_id = None, team_id = ''T2'', items = Map.empty\<rparr>"

definition example_record :: json where
  "example_record = JObj [(''api_key'', JStr ''sk-good''), (''model'', JStr ''gpt-x'')]"

definition example_world :: world where
  "example_world =
     \<lparr>bucket = [''T2'' \<mapsto> json_dumps example_record],
      installations = {(None, ''T2'', ''U1''), (None, ''T2'', ''U2''), (None, ''T9'', ''U1'')},
      bots = {(None, ''T2''), (None, ''T9'')},
      log = []\<rparr>"

text \<open>A credential provider that knows one key and two models.\<close>

definition example_retrieve :: "string \<Rightarrow> string \<Rightarrow> exn option" where
  "example_retrieve k m =
     (if k = ''sk-good'' \<and> (m = ''gpt-3.5-turbo'' \<or> m = ''gpt-x'') then None else Some APIError)"

text \<open>
  A request of \<open>T2\<close> after the middleware has put the key of the workspace in the context,
  and three behaviours of \<^verbatim>\<open>translate\<close>: it returns the text as it is; it has the
  translation of the message about the key at hand and fails on any other text; it fails
  on every text.
\<close>

definition example_configured_ctx :: bolt_context where
  "example_configured_ctx =
     \<lparr>enterprise_id = None, team_id = ''T2'',
      items = [''OPENAI_API_KEY'' \<mapsto> JStr ''sk-old'']\<rparr>"

definition translate_returns :: "json \<Rightarrow> bolt_context \<Rightarrow> string \<Rightarrow> exn + string" where
  "translate_returns k c text = Inr text"

definition translate_fails_but_one :: "json \<Rightarrow> bolt_context \<Rightarrow> string \<Rightarrow> exn + string" where
  "translate_fails_but_one k c text =
     (if text = ''This API key seems to be invalid'' then Inr text else Inl APIError)"

definition translate_fails :: "json \<Rightarrow> bolt_context \<Rightarrow> string \<Rightarrow> exn + string" where
  "translate_fails k c text = Inl APIError"

section \<open>Properties\<close>

subsection \<open>Auxiliary facts\<close>

lemmas codec_defs = flat_json_loads_def quote_def escape_char_def dq_def bs_def is_ws_def
  is_punct_def is_control_def dict_of_def atom_token_def valid_number_def is_digit_def

lemma items_ctx_set: "items (ctx_set ctx k v) = (items ctx)(k \<mapsto> v)"
  by (simp add: ctx_set_def)

lemma ctx_get_ctx_set: "ctx_get (ctx_set ctx k v) k' = (if k' = k then v else ctx_get ctx k')"
  by (simp add: ctx_get_def ctx_set_def)

lemma enrich_credentials_ok:
  "load_config E loads fault b ctx = Inr c \<Longrightarrow>
   credentials (enrich E loads fault b ctx) = credentials c"
  by (simp add: enrich_def Let_def credentials_def ctx_get_ctx_set)

lemma enrich_credentials_failed:
  "load_config E loads fault b ctx = Inl e \<Longrightarrow>
   credentials (enrich E loads fault b ctx) = not_configured"
  by (simp add: enrich_def Let_def credentials_def ctx_get_ctx_set not_configured_def)

lemma load_record_ok:
  "load_config E loads fault b ctx = Inr c \<Longrightarrow> load_record E loads fault b ctx = credentials c"
  by (simp add: load_record_def set_gcs_openai_api_key_def enrich_credentials_ok)

lemma load_record_failed:
  "load_config E loads fault b ctx = Inl e \<Longrightarrow> load_record E loads fault b ctx = not_configured"
  by (simp add: load_record_def set_gcs_openai_api_key_def enrich_credentials_failed)

lemma load_config_legacy:
  "b (team_id ctx) = Some s \<Longrightarrow> \<not> startswith s ''{'' \<Longrightarrow>
   load_config E loads None b ctx =
     Inr (ctx_set (ctx_set (ctx_set (ctx_set ctx
       ''OPENAI_API_KEY'' (JStr s))
       ''OPENAI_MODEL'' (OPENAI_MODEL E))
       ''OPENAI_IMAGE_GENERATION_MODEL'' (OPENAI_IMAGE_GENERATION_MODEL E))
       ''OPENAI_TEMPERATURE'' (OPENAI_TEMPERATURE E))"
  by (simp add: load_config_def download_as_text_def)

lemma load_config_structured:
  "b (team_id ctx) = Some s \<Longrightarrow> startswith s ''{'' \<Longrightarrow> loads s = Some (JObj config) \<Longrightarrow>
   load_config E loads None b ctx =
     Inr (ctx_set (ctx_set (ctx_set (ctx_set ctx
       ''OPENAI_API_KEY'' (dict_get config ''api_key''))
       ''OPENAI_MODEL'' (dict_get config ''model''))
       ''OPENAI_IMAGE_GENERATION_MODEL''
         (dict_get_default config ''image_generation_model'' (OPENAI_IMAGE_GENERATION_MODEL E)))
       ''OPENAI_TEMPERATURE''
         (dict_get_default config ''temperature'' (OPENAI_TEMPERATURE E)))"
  by (simp add: load_config_def download_as_text_def)

lemma load_config_undecodable:
  "b (team_id ctx) = Some s \<Longrightarrow> startswith s ''{'' \<Longrightarrow> loads s = None \<Longrightarrow>
   load_config E loads None b ctx = Inl JSONDecodeError"
  by (simp add: load_config_def download_as_text_def)

lemma load_config_absent:
  "b (team_id ctx) = None \<Longrightarrow> \<exists>e. load_config E loads fault b ctx = Inl e"
  by (simp add: load_config_def download_as_text_def split: option.splits)

lemma load_record_absent:
  "b (team_id ctx) = None \<Longrightarrow> load_record E loads fault b ctx = not_configured"
  using load_config_absent [of b ctx E loads fault]
  by (auto simp: load_record_failed)

lemma fold_delete_installation:
  "fold (\<lambda>user_id w'. delete_installation w' e t user_id) us w
     = w\<lparr>installations := installations w - {e} \<times> {t} \<times> set us\<rparr>"
proof (induction us arbitrary: w)
  case Nil
  then show ?case by simp
next
  case (Cons a us)
  have sets: "installations w - {(e, t, a)} - {e} \<times> {t} \<times> set us
          = installations w - {e} \<times> {t} \<times> set (a # us)"
    by auto
  have "fold (\<lambda>user_id w'. delete_installation w' e t user_id) (a # us) w
          = fold (\<lambda>user_id w'. delete_installation w' e t user_id) us
              (delete_installation w e t a)"
    by simp
  also have "\<dots> = (delete_installation w e t a)
      \<lparr>installations := installations (delete_installation w e t a)
         - {e} \<times> {t} \<times> set us\<rparr>"
    by (rule Cons.IH)
  also have "\<dots> = w\<lparr>installations := installations w - {e} \<times> {t} \<times> set (a # us)\<rparr>"
    unfolding delete_installation_def using sets by simp
  finally show ?case .
qed

lemma fold_if_nonempty:
  "(if length us > 0 then fold f us w else w) = fold f us w"
  by (cases us) simp_all

lemma tokens_revoked_without_bot:
  "revoked_bot event = [] \<Longrightarrow>
   handle_tokens_revoked_events fault event ctx w
     = w\<lparr>installations := installations w
          - {enterprise_id ctx} \<times> {team_id ctx} \<times> set (revoked_oauth event)\<rparr>"
  by (simp add: handle_tokens_revoked_events_def Let_def fold_if_nonempty
        fold_delete_installation)

lemma tokens_revoked_with_bot:
  "revoked_bot event \<noteq> [] \<Longrightarrow>
   handle_tokens_revoked_events fault event ctx w
     = delete_openai_auth_key fault ctx
         (w\<lparr>installations := installations w
              - {enterprise_id ctx} \<times> {team_id ctx} \<times> set (revoked_oauth event),
            bots := bots w - {(enterprise_id ctx, team_id ctx)}\<rparr>)"
  by (simp add: handle_tokens_revoked_events_def Let_def fold_if_nonempty
        fold_delete_installation delete_bot_def)

lemma app_uninstalled_unfold:
  "handle_app_uninstalled_events fault ctx w
     = delete_openai_auth_key fault ctx
         (w\<lparr>bots := bots w - {(enterprise_id ctx, team_id ctx)},
            installations := installations w - {enterprise_id ctx} \<times> {team_id ctx} \<times> UNIV\<rparr>)"
  by (simp add: handle_app_uninstalled_events_def delete_all_def)

lemma delete_openai_auth_key_done:
  "bucket (delete_openai_auth_key None ctx w) = (bucket w)(team_id ctx := None)"
  by (auto simp: delete_openai_auth_key_def blob_delete_def split: option.splits)

lemma delete_openai_auth_key_stores:
  "installations (delete_openai_auth_key fault ctx w) = installations w"
  "bots (delete_openai_auth_key fault ctx w) = bots w"
  by (simp_all add: delete_openai_auth_key_def split: sum.splits)

text \<open>
  When the delete call itself fails, the handlers log the failure and the blob stays: the
  cleanup failure of section 7 of the spec.
\<close>

lemma delete_openai_auth_key_failed:
  "delete_openai_auth_key (Some e) ctx w = w\<lparr>log := log w @ [DeleteFailed (team_id ctx) e]\<rparr>"
  by (simp add: delete_openai_auth_key_def blob_delete_def)

lemma delete_openai_auth_key_absent:
  "bucket w (team_id ctx) = None \<Longrightarrow>
   \<exists>e. delete_openai_auth_key fault ctx w = w\<lparr>log := log w @ [DeleteFailed (team_id ctx) e]\<rparr>"
  by (cases fault) (auto simp: delete_openai_auth_key_def blob_delete_def)

lemma example_uninstalled:
  "handle_app_uninstalled_events None example_ctx example_world
     = \<lparr>bucket = Map.empty,
        installations = {(None, ''T9'', ''U1'')},
        bots = {(None, ''T9'')},
        log = []\<rparr>"
  by (simp add: app_uninstalled_unfold example_world_def example_ctx_def
        delete_openai_auth_key_def blob_delete_def insert_Diff_if del: json_dumps.simps)

subsection \<open>The validation phase\<close>

text \<open>
  The phase changes nothing in the world. Whenever \<^verbatim>\<open>translate\<close> returns for the two
  messages (as it does when the workspace has no key yet: it is not called), the outcome
  is decided by the two probes alone.
\<close>

lemma validate_changes_nothing:
  "snd (validate_api_key_registration retrieve translate view ctx w) = w"
  by (simp add: validate_api_key_registration_def reject_api_key_def Let_def
        split: option.splits sum.splits)

lemma validate_when_translate_returns:
  assumes "error_text translate ctx ''This API key seems to be invalid'' = Inr key_text"
    and "error_text translate ctx ''This model is not yet available for this API key''
           = Inr model_text"
  shows "(retrieve (api_key_value view) ''gpt-3.5-turbo'' \<noteq> None \<longrightarrow>
            fst (validate_api_key_registration retrieve translate view ctx w)
              = Inr (AckErrors [(''api_key'', key_text)]))
       \<and> (retrieve (api_key_value view) ''gpt-3.5-turbo'' = None
            \<and> retrieve (api_key_value view) (model_value view) \<noteq> None \<longrightarrow>
            fst (validate_api_key_registration retrieve translate view ctx w)
              = Inr (AckErrors [(''model'', model_text)]))
       \<and> (retrieve (api_key_value view) ''gpt-3.5-turbo'' = None
            \<and> retrieve (api_key_value view) (model_value view) = None \<longrightarrow>
            fst (validate_api_key_registration retrieve translate view ctx w) = Inr AckOk)"
  using assms
  by (auto simp: validate_api_key_registration_def reject_api_key_def Let_def
        split: option.splits)

lemma error_text_unconfigured:
  "items ctx ''OPENAI_API_KEY'' = None \<Longrightarrow> error_text translate ctx text = Inr text"
  by (simp add: error_text_def ctx_get_def)

text \<open>
  Claim C1. For every submitted key and model, the synchronous phase is to be decided by
  the two probes alone: an error on the \<open>api_key\<close> field when the probe of the baseline
  model with the submitted key fails, an error on the \<open>model\<close> field when that probe
  succeeds and the probe of the submitted model fails, an acknowledgement when both
  succeed, and nothing written in any case. The function writes nothing, and it decides
  so whenever \<^verbatim>\<open>translate\<close> returns (the lemmas above). It does not when \<^verbatim>\<open>translate\<close>
  raises. The handler of the inner \<^verbatim>\<open>try\<close>, which reports the model, is itself inside the
  outer \<^verbatim>\<open>try\<close>, whose comment reads "Verify if the API key is valid". So when the
  baseline probe succeeds, the probe of the submitted model fails and \<^verbatim>\<open>translate\<close> raises
  on the message about the model, the submission is answered by the outer handler: with
  an error on the \<open>api_key\<close> field, or, when \<^verbatim>\<open>translate\<close> raises there again, with no
  acknowledgement at all. The theorem is this behaviour of the code.
\<close>

theorem validate_model_failure_answered_as_key_failure:
  assumes "retrieve (api_key_value view) ''gpt-3.5-turbo'' = None"
    and "retrieve (api_key_value view) (model_value view) \<noteq> None"
    and "error_text translate ctx ''This model is not yet available for this API key'' = Inl e"
  shows "validate_api_key_registration retrieve translate view ctx w
           = (case error_text translate ctx ''This API key seems to be invalid'' of
                Inl e' \<Rightarrow> (Inl e', w)
              | Inr text \<Rightarrow> (Inr (AckErrors [(''api_key'', text)]), w))"
  using assms
  by (auto simp: validate_api_key_registration_def reject_api_key_def Let_def
        split: option.splits sum.splits)

text \<open>
  The statement at concrete values: the workspace has a key, the submitted key passes the
  baseline probe, the submitted model \<^verbatim>\<open>gpt-5\<close> does not pass, and \<^verbatim>\<open>translate\<close> fails.
\<close>

theorem validate_model_failure_answered_as_key_failure_witness:
  "validate_api_key_registration example_retrieve translate_fails_but_one
       \<lparr>api_key_value = ''sk-good'', model_value = ''gpt-5''\<rparr> example_configured_ctx example_world
     = (Inr (AckErrors [(''api_key'', ''This API key seems to be invalid'')]), example_world)
   \<and> validate_api_key_registration example_retrieve translate_fails
       \<lparr>api_key_value = ''sk-good'', model_value = ''gpt-5''\<rparr> example_configured_ctx example_world
     = (Inl APIError, example_world)"
proof -
  let ?view = "\<lparr>api_key_value = ''sk-good'', model_value = ''gpt-5''\<rparr>"
  have 1: "example_retrieve (api_key_value ?view) ''gpt-3.5-turbo'' = None"
    by (simp add: example_retrieve_def)
  have 2: "example_retrieve (api_key_value ?view) (model_value ?view) \<noteq> None"
    by (simp add: example_retrieve_def)
  have 3: "error_text translate_fails_but_one example_configured_ctx
             ''This model is not yet available for this API key'' = Inl APIError"
    by (simp add: error_text_def ctx_get_def example_configured_ctx_def
          translate_fails_but_one_def)
  have 4: "error_text translate_fails example_configured_ctx
             ''This model is not yet available for this API key'' = Inl APIError"
    by (simp add: error_text_def ctx_get_def example_configured_ctx_def translate_fails_def)
  have 5: "error_text translate_fails_but_one example_configured_ctx
             ''This API key seems to be invalid'' = Inr ''This API key seems to be invalid''"
    by (simp add: error_text_def ctx_get_def example_configured_ctx_def
          translate_fails_but_one_def)
  have 6: "error_text translate_fails example_configured_ctx
             ''This API key seems to be invalid'' = Inl APIError"
    by (simp add: error_text_def ctx_get_def example_configured_ctx_def translate_fails_def)
  note a = validate_model_failure_answered_as_key_failure
    [where retrieve = example_retrieve and view = ?view and w = example_world, OF 1 2 3]
  note b = validate_model_failure_answered_as_key_failure
    [where retrieve = example_retrieve and view = ?view and w = example_world, OF 1 2 4]
  from a b show ?thesis
    by (simp only: 5 6 sum.case)
qed

subsection \<open>The saving phase\<close>

text \<open>
  Claim C2. For every submitted key and model, the lazy listener writes the structured
  record to the bucket if and only if the probe of the submitted model with the submitted
  key succeeds and the upload itself does not fail. When the probe or the upload fails,
  the bucket is left as it was and the world changes by one log entry only. The response
  the user receives is that of the validation phase, whatever the saving phase does.
\<close>

theorem save_writes_iff_reverified:
  "bucket (save_api_key_registration retrieve dumps fault view ctx w)
     = (if retrieve (api_key_value view) (model_value view) = None \<and> fault = None
        then (bucket w)(team_id ctx \<mapsto>
               dumps (JObj [(''api_key'', JStr (api_key_value view)),
                            (''model'', JStr (model_value view))]))
        else bucket w)
   \<and> (retrieve (api_key_value view) (model_value view) \<noteq> None \<or> fault \<noteq> None \<longrightarrow>
        (\<exists>e. save_api_key_registration retrieve dumps fault view ctx w
               = w\<lparr>log := log w @ [SaveFailed e]\<rparr>))
   \<and> (retrieve (api_key_value view) (model_value view) = None \<and> fault = None \<longrightarrow>
        log (save_api_key_registration retrieve dumps fault view ctx w) = log w)
   \<and> fst (configure_view retrieve_ack translate retrieve dumps fault view ctx w)
       = fst (validate_api_key_registration retrieve_ack translate view ctx w)"
  by (auto simp: save_api_key_registration_def configure_view_def Let_def
        upload_from_string_def split: option.splits prod.splits)

text \<open>The statement at concrete values.\<close>

theorem save_writes_iff_reverified_witness:
  "bucket (save_api_key_registration example_retrieve json_dumps None
       \<lparr>api_key_value = ''sk-good'', model_value = ''gpt-x''\<rparr> example_ctx
       \<lparr>bucket = Map.empty, installations = {}, bots = {}, log = []\<rparr>)
     = [''T2'' \<mapsto> json_dumps example_record]
   \<and> bucket (save_api_key_registration example_retrieve json_dumps None
       \<lparr>api_key_value = ''sk-good'', model_value = ''gpt-5''\<rparr> example_ctx
       \<lparr>bucket = Map.empty, installations = {}, bots = {}, log = []\<rparr>)
     = Map.empty
   \<and> bucket (save_api_key_registration example_retrieve json_dumps (Some ServiceUnavailable)
       \<lparr>api_key_value = ''sk-good'', model_value = ''gpt-x''\<rparr> example_ctx
       \<lparr>bucket = Map.empty, installations = {}, bots = {}, log = []\<rparr>)
     = Map.empty"
proof -
  let ?w = "\<lparr>bucket = Map.empty, installations = {}, bots = {}, log = []\<rparr>"
  note a = save_writes_iff_reverified [of example_retrieve json_dumps None
      "\<lparr>api_key_value = ''sk-good'', model_value = ''gpt-x''\<rparr>" example_ctx ?w]
  note b = save_writes_iff_reverified [of example_retrieve json_dumps None
      "\<lparr>api_key_value = ''sk-good'', model_value = ''gpt-5''\<rparr>" example_ctx ?w]
  note c = save_writes_iff_reverified [of example_retrieve json_dumps "Some ServiceUnavailable"
      "\<lparr>api_key_value = ''sk-good'', model_value = ''gpt-x''\<rparr>" example_ctx ?w]
  have 1: "example_retrieve ''sk-good'' ''gpt-x'' = None"
    by (simp add: example_retrieve_def)
  have 2: "example_retrieve ''sk-good'' ''gpt-5'' \<noteq> None"
    by (simp add: example_retrieve_def)
  have 3: "team_id example_ctx = ''T2''"
    by (simp add: example_ctx_def)
  from a 1 3 have A: "bucket (save_api_key_registration example_retrieve json_dumps None
       \<lparr>api_key_value = ''sk-good'', model_value = ''gpt-x''\<rparr> example_ctx ?w)
     = [''T2'' \<mapsto> json_dumps example_record]"
    by (simp add: example_record_def del: json_dumps.simps)
  from b 2 have B: "bucket (save_api_key_registration example_retrieve json_dumps None
       \<lparr>api_key_value = ''sk-good'', model_value = ''gpt-5''\<rparr> example_ctx ?w) = Map.empty"
    by (simp del: json_dumps.simps)
  from c have C: "bucket (save_api_key_registration example_retrieve json_dumps
       (Some ServiceUnavailable)
       \<lparr>api_key_value = ''sk-good'', model_value = ''gpt-x''\<rparr> example_ctx ?w) = Map.empty"
    by (simp del: json_dumps.simps)
  from A B C show ?thesis
    by (intro conjI)
qed

subsection \<open>Loading a payload that is not JSON\<close>

text \<open>
  Claim C3, as amended. What decides between the two encodings is the first character of
  the payload, not whether the payload can be decoded. For every stored payload \<open>s\<close> that
  does not begin with an opening brace (and is read without a failure of the storage
  service), the loaded record has \<open>apiKey\<close> equal to \<open>s\<close> and its model, image model and
  temperature equal to the process-wide defaults. A payload that begins with an opening
  brace and cannot be decoded is not read as a legacy key: the load yields the record of
  a workspace that is not configured.
\<close>

theorem load_legacy_by_prefix:
  "(b (team_id ctx) = Some s \<and> \<not> startswith s ''{'' \<longrightarrow>
      load_record E loads None b ctx
        = \<lparr>apiKey = JStr s,
           model = OPENAI_MODEL E,
           imageModel = OPENAI_IMAGE_GENERATION_MODEL E,
           temperature = OPENAI_TEMPERATURE E\<rparr>)
   \<and> (b (team_id ctx) = Some s \<and> startswith s ''{'' \<and> loads s = None \<longrightarrow>
      load_record E loads None b ctx = not_configured)"
proof (intro conjI impI)
  assume "b (team_id ctx) = Some s \<and> \<not> startswith s ''{''"
  then have "load_config E loads None b ctx =
     Inr (ctx_set (ctx_set (ctx_set (ctx_set ctx
       ''OPENAI_API_KEY'' (JStr s))
       ''OPENAI_MODEL'' (OPENAI_MODEL E))
       ''OPENAI_IMAGE_GENERATION_MODEL'' (OPENAI_IMAGE_GENERATION_MODEL E))
       ''OPENAI_TEMPERATURE'' (OPENAI_TEMPERATURE E))"
    by (simp add: load_config_legacy)
  then show "load_record E loads None b ctx
        = \<lparr>apiKey = JStr s,
           model = OPENAI_MODEL E,
           imageModel = OPENAI_IMAGE_GENERATION_MODEL E,
           temperature = OPENAI_TEMPERATURE E\<rparr>"
    by (simp add: load_record_ok credentials_def ctx_get_ctx_set)
next
  assume "b (team_id ctx) = Some s \<and> startswith s ''{'' \<and> loads s = None"
  then have "load_config E loads None b ctx = Inl JSONDecodeError"
    by (simp add: load_config_undecodable)
  then show "load_record E loads None b ctx = not_configured"
    by (rule load_record_failed)
qed

text \<open>The statement at concrete values.\<close>

theorem load_legacy_by_prefix_witness:
  "load_record example_env flat_json_loads None [''T2'' \<mapsto> ''sk-legacy''] example_ctx
     = \<lparr>apiKey = JStr ''sk-legacy'',
        model = JStr ''gpt-3.5-turbo'',
        imageModel = JStr ''dall-e-3'',
        temperature = JNum ''1.0''\<rparr>
   \<and> load_record example_env flat_json_loads None [''T2'' \<mapsto> ''{sk-legacy''] example_ctx
     = not_configured"
proof -
  have 1: "flat_json_loads ''{sk-legacy'' = None"
    by (simp add: codec_defs)
  note a = load_legacy_by_prefix [of "[''T2'' \<mapsto> ''sk-legacy'']" example_ctx "''sk-legacy''"
      example_env flat_json_loads]
  note b = load_legacy_by_prefix [of "[''T2'' \<mapsto> ''{sk-legacy'']" example_ctx "''{sk-legacy''"
      example_env flat_json_loads]
  show ?thesis
    using a b 1 by (simp add: example_ctx_def example_env_def startswith_def)
qed

text \<open>
  The claim as first stated, that every payload that is not valid JSON is read as a legacy
  key, fails on the payload \<^verbatim>\<open>{sk-legacy\<close>: it is not JSON, and the load yields no key at
  all.
\<close>

theorem legacy_fallback_counterexample:
  "flat_json_loads ''{sk-legacy'' = None
   \<and> load_record example_env flat_json_loads None [''T2'' \<mapsto> ''{sk-legacy''] example_ctx
       = not_configured
   \<and> load_record example_env flat_json_loads None [''T2'' \<mapsto> ''{sk-legacy''] example_ctx
       \<noteq> \<lparr>apiKey = JStr ''{sk-legacy'',
           model = OPENAI_MODEL example_env,
           imageModel = OPENAI_IMAGE_GENERATION_MODEL example_env,
           temperature = OPENAI_TEMPERATURE example_env\<rparr>"
proof -
  have 1: "flat_json_loads ''{sk-legacy'' = None"
    by (simp add: codec_defs)
  have "load_config example_env flat_json_loads None [''T2'' \<mapsto> ''{sk-legacy''] example_ctx
          = Inl JSONDecodeError"
    by (rule load_config_undecodable [where s = "''{sk-legacy''"])
       (simp_all add: example_ctx_def startswith_def 1)
  then have 2: "load_record example_env flat_json_loads None [''T2'' \<mapsto> ''{sk-legacy''] example_ctx
          = not_configured"
    by (rule load_record_failed)
  show ?thesis
    by (simp add: 1 2 not_configured_def)
qed

subsection \<open>Saving, then loading\<close>

text \<open>
  Claim C4, as amended. The only write path of the module stores the key and the model of
  a record and nothing else. For every record \<open>r\<close> whose key and model are strings, when
  the probe of the model with the key succeeds, neither storage call fails, and
  \<^verbatim>\<open>json.loads\<close> gives back the object that \<^verbatim>\<open>json.dumps\<close> wrote (a text that begins with
  an opening brace), saving \<open>r\<close> and then loading the same team id returns \<open>r\<close> with its
  image model and temperature replaced by the process-wide defaults. So the round trip
  returns \<open>r\<close> itself exactly for the records whose image model and temperature are the
  defaults.
\<close>

theorem save_then_load:
  assumes "apiKey r = JStr k" and "model r = JStr m"
    and "retrieve k m = None"
    and "startswith (dumps (JObj [(''api_key'', JStr k), (''model'', JStr m)])) ''{''"
    and "loads (dumps (JObj [(''api_key'', JStr k), (''model'', JStr m)]))
           = Some (JObj [(''api_key'', JStr k), (''model'', JStr m)])"
  shows "load_record E loads None (bucket (save_record retrieve dumps None r ctx w)) ctx
           = r\<lparr>imageModel := OPENAI_IMAGE_GENERATION_MODEL E,
               temperature := OPENAI_TEMPERATURE E\<rparr>"
proof -
  let ?v = "[(''api_key'', JStr k), (''model'', JStr m)]"
  have saved: "bucket (save_record retrieve dumps None r ctx w)
                 = (bucket w)(team_id ctx \<mapsto> dumps (JObj ?v))"
    using assms(1-3)
    by (simp add: save_record_def save_api_key_registration_def Let_def upload_from_string_def)
  have "load_config E loads None ((bucket w)(team_id ctx \<mapsto> dumps (JObj ?v))) ctx
     = Inr (ctx_set (ctx_set (ctx_set (ctx_set ctx
       ''OPENAI_API_KEY'' (dict_get ?v ''api_key''))
       ''OPENAI_MODEL'' (dict_get ?v ''model''))
       ''OPENAI_IMAGE_GENERATION_MODEL''
         (dict_get_default ?v ''image_generation_model'' (OPENAI_IMAGE_GENERATION_MODEL E)))
       ''OPENAI_TEMPERATURE''
         (dict_get_default ?v ''temperature'' (OPENAI_TEMPERATURE E)))"
    using assms(4,5) by (simp add: load_config_def download_as_text_def)
  then have "load_record E loads None ((bucket w)(team_id ctx \<mapsto> dumps (JObj ?v))) ctx
     = \<lparr>apiKey = JStr k, model = JStr m,
        imageModel = OPENAI_IMAGE_GENERATION_MODEL E, temperature = OPENAI_TEMPERATURE E\<rparr>"
    by (simp add: load_record_ok credentials_def ctx_get_ctx_set dict_get_def dict_get_default_def)
  with saved assms(1,2) show ?thesis
    by simp
qed

text \<open>The statement at concrete values.\<close>

theorem save_then_load_witness:
  "load_record example_env flat_json_loads None
     (bucket (save_record example_retrieve json_dumps None
        \<lparr>apiKey = JStr ''sk-good'', model = JStr ''gpt-x'',
         imageModel = JStr ''dall-e-3'', temperature = JNum ''1.0''\<rparr>
        example_ctx example_world))
     example_ctx
   = \<lparr>apiKey = JStr ''sk-good'', model = JStr ''gpt-x'',
      imageModel = JStr ''dall-e-3'', temperature = JNum ''1.0''\<rparr>"
proof -
  let ?v = "[(''api_key'', JStr ''sk-good''), (''model'', JStr ''gpt-x'')]"
  let ?r = "\<lparr>apiKey = JStr ''sk-good'', model = JStr ''gpt-x'',
         imageModel = JStr ''dall-e-3'', temperature = JNum ''1.0''\<rparr>"
  have 2: "flat_json_loads (json_dumps (JObj ?v)) = Some (JObj ?v)"
    by (simp add: codec_defs)
  have 3: "startswith (json_dumps (JObj ?v)) ''{''"
    by (simp add: startswith_def)
  have 4: "example_retrieve ''sk-good'' ''gpt-x'' = None"
    by (simp add: example_retrieve_def)
  have 5: "apiKey ?r = JStr ''sk-good''" "model ?r = JStr ''gpt-x''"
    by simp_all
  show ?thesis
    using save_then_load
      [where r = ?r and retrieve = example_retrieve and dumps = json_dumps
         and loads = flat_json_loads and E = example_env and ctx = example_ctx
         and w = example_world, OF 5 4 3 2]
    by (simp add: example_env_def)
qed

text \<open>
  The claim as first stated, for any image model and temperature, fails on a record whose
  image model is \<^verbatim>\<open>dall-e-2\<close> and whose temperature is \<^verbatim>\<open>0.2\<close>: what is loaded back
  carries the defaults \<^verbatim>\<open>dall-e-3\<close> and \<^verbatim>\<open>1.0\<close>.
\<close>

theorem round_trip_counterexample:
  "load_record example_env flat_json_loads None
     (bucket (save_record example_retrieve json_dumps None
        \<lparr>apiKey = JStr ''sk-good'', model = JStr ''gpt-x'',
         imageModel = JStr ''dall-e-2'', temperature = JNum ''0.2''\<rparr>
        example_ctx \<lparr>bucket = Map.empty, installations = {}, bots = {}, log = []\<rparr>))
     example_ctx
   = \<lparr>apiKey = JStr ''sk-good'', model = JStr ''gpt-x'',
      imageModel = JStr ''dall-e-3'', temperature = JNum ''1.0''\<rparr>
   \<and> load_record example_env flat_json_loads None
     (bucket (save_record example_retrieve json_dumps None
        \<lparr>apiKey = JStr ''sk-good'', model = JStr ''gpt-x'',
         imageModel = JStr ''dall-e-2'', temperature = JNum ''0.2''\<rparr>
        example_ctx \<lparr>bucket = Map.empty, installations = {}, bots = {}, log = []\<rparr>))
     example_ctx
   \<noteq> \<lparr>apiKey = JStr ''sk-good'', model = JStr ''gpt-x'',
      imageModel = JStr ''dall-e-2'', temperature = JNum ''0.2''\<rparr>"
proof -
  let ?v = "[(''api_key'', JStr ''sk-good''), (''model'', JStr ''gpt-x'')]"
  let ?s = "json_dumps (JObj ?v)"
  have 1: "flat_json_loads ?s = Some (JObj ?v)"
    by (simp add: codec_defs)
  have 2: "startswith ?s ''{''"
    by (simp add: startswith_def)
  have 3: "bucket (save_record example_retrieve json_dumps None
        \<lparr>apiKey = JStr ''sk-good'', model = JStr ''gpt-x'',
         imageModel = JStr ''dall-e-2'', temperature = JNum ''0.2''\<rparr>
        example_ctx \<lparr>bucket = Map.empty, installations = {}, bots = {}, log = []\<rparr>)
        = [''T2'' \<mapsto> ?s]"
    by (simp add: save_record_def save_api_key_registration_def Let_def example_retrieve_def
          upload_from_string_def example_ctx_def del: json_dumps.simps)
  have "load_config example_env flat_json_loads None [''T2'' \<mapsto> ?s] example_ctx
     = Inr (ctx_set (ctx_set (ctx_set (ctx_set example_ctx
       ''OPENAI_API_KEY'' (dict_get ?v ''api_key''))
       ''OPENAI_MODEL'' (dict_get ?v ''model''))
       ''OPENAI_IMAGE_GENERATION_MODEL''
         (dict_get_default ?v ''image_generation_model'' (OPENAI_IMAGE_GENERATION_MODEL example_env)))
       ''OPENAI_TEMPERATURE''
         (dict_get_default ?v ''temperature'' (OPENAI_TEMPERATURE example_env)))"
    by (simp add: load_config_def download_as_text_def example_ctx_def 1 2
          del: json_dumps.simps)
  then have "load_record example_env flat_json_loads None [''T2'' \<mapsto> ?s] example_ctx
     = \<lparr>apiKey = JStr ''sk-good'', model = JStr ''gpt-x'',
        imageModel = JStr ''dall-e-3'', temperature = JNum ''1.0''\<rparr>"
    by (simp add: load_record_ok credentials_def ctx_get_ctx_set dict_get_def
          dict_get_default_def example_env_def)
  then show ?thesis
    by (simp only: 3) simp
qed

subsection \<open>Loading a structured record\<close>

text \<open>
  Claim C5, as amended. For every stored payload that begins with an opening brace and
  decodes to an object (read without a failure of the storage service), the middleware
  copies the fields of the object into the context: the key and the model as they are
  stored, \<^verbatim>\<open>None\<close> for either when the object has no such field; the image model and the
  temperature as they are stored, and the process-wide default for either when the object
  has no such field.
\<close>

theorem structured_record_copied:
  assumes "b (team_id ctx) = Some s" and "startswith s ''{''" and "loads s = Some (JObj config)"
  shows "items (enrich E loads None b ctx) ''OPENAI_API_KEY''
           = Some (case map_of config ''api_key'' of None \<Rightarrow> JNull | Some v \<Rightarrow> v)
       \<and> items (enrich E loads None b ctx) ''OPENAI_MODEL''
           = Some (case map_of config ''model'' of None \<Rightarrow> JNull | Some v \<Rightarrow> v)
       \<and> items (enrich E loads None b ctx) ''OPENAI_IMAGE_GENERATION_MODEL''
           = Some (case map_of config ''image_generation_model'' of
                     None \<Rightarrow> OPENAI_IMAGE_GENERATION_MODEL E | Some v \<Rightarrow> v)
       \<and> items (enrich E loads None b ctx) ''OPENAI_TEMPERATURE''
           = Some (case map_of config ''temperature'' of
                     None \<Rightarrow> OPENAI_TEMPERATURE E | Some v \<Rightarrow> v)"
proof -
  from assms have "load_config E loads None b ctx =
     Inr (ctx_set (ctx_set (ctx_set (ctx_set ctx
       ''OPENAI_API_KEY'' (dict_get config ''api_key''))
       ''OPENAI_MODEL'' (dict_get config ''model''))
       ''OPENAI_IMAGE_GENERATION_MODEL''
         (dict_get_default config ''image_generation_model'' (OPENAI_IMAGE_GENERATION_MODEL E)))
       ''OPENAI_TEMPERATURE''
         (dict_get_default config ''temperature'' (OPENAI_TEMPERATURE E)))"
    by (rule load_config_structured)
  then show ?thesis
    by (simp add: enrich_def Let_def items_ctx_set dict_get_def dict_get_default_def)
qed

text \<open>The statement at concrete values.\<close>

theorem structured_record_copied_witness:
  "items (enrich example_env flat_json_loads None
      [''T2'' \<mapsto> json_dumps (JObj [(''api_key'', JStr ''sk-good''), (''temperature'', JNum ''0.2'')])]
      example_ctx) ''OPENAI_API_KEY'' = Some (JStr ''sk-good'')
   \<and> items (enrich example_env flat_json_loads None
      [''T2'' \<mapsto> json_dumps (JObj [(''api_key'', JStr ''sk-good''), (''temperature'', JNum ''0.2'')])]
      example_ctx) ''OPENAI_MODEL'' = Some JNull
   \<and> items (enrich example_env flat_json_loads None
      [''T2'' \<mapsto> json_dumps (JObj [(''api_key'', JStr ''sk-good''), (''temperature'', JNum ''0.2'')])]
      example_ctx) ''OPENAI_IMAGE_GENERATION_MODEL'' = Some (JStr ''dall-e-3'')
   \<and> items (enrich example_env flat_json_loads None
      [''T2'' \<mapsto> json_dumps (JObj [(''api_key'', JStr ''sk-good''), (''temperature'', JNum ''0.2'')])]
      example_ctx) ''OPENAI_TEMPERATURE'' = Some (JNum ''0.2'')"
proof -
  let ?v = "[(''api_key'', JStr ''sk-good''), (''temperature'', JNum ''0.2'')]"
  let ?s = "json_dumps (JObj ?v)"
  have 1: "flat_json_loads ?s = Some (JObj ?v)"
    by (simp add: codec_defs)
  have 2: "startswith ?s ''{''"
    by (simp add: startswith_def)
  have 3: "[''T2'' \<mapsto> ?s] (team_id example_ctx) = Some ?s"
    by (simp add: example_ctx_def)
  show ?thesis
    using structured_record_copied
      [where b = "[''T2'' \<mapsto> ?s]" and ctx = example_ctx and E = example_env and s = ?s
         and loads = flat_json_loads and config = ?v, OF 3 2 1]
    by (simp add: example_env_def)
qed

text \<open>
  The claim as first stated, with a default for the model as well, fails on the payload
  \<^verbatim>\<open>{"api_key": "sk-good"}\<close>: the model in the context is \<^verbatim>\<open>None\<close>, not the default model
  \<^verbatim>\<open>gpt-3.5-turbo\<close>.
\<close>

theorem model_default_counterexample:
  "flat_json_loads (json_dumps (JObj [(''api_key'', JStr ''sk-good'')]))
     = Some (JObj [(''api_key'', JStr ''sk-good'')])
   \<and> items (enrich example_env flat_json_loads None
        [''T2'' \<mapsto> json_dumps (JObj [(''api_key'', JStr ''sk-good'')])] example_ctx)
        ''OPENAI_MODEL'' = Some JNull
   \<and> OPENAI_MODEL example_env = JStr ''gpt-3.5-turbo''"
proof -
  let ?s = "json_dumps (JObj [(''api_key'', JStr ''sk-good'')])"
  have 1: "flat_json_loads ?s = Some (JObj [(''api_key'', JStr ''sk-good'')])"
    by (simp add: codec_defs)
  have 2: "startswith ?s ''{''"
    by (simp add: startswith_def)
  have "load_config example_env flat_json_loads None [''T2'' \<mapsto> ?s] example_ctx
     = Inr (ctx_set (ctx_set (ctx_set (ctx_set example_ctx
       ''OPENAI_API_KEY'' (dict_get [(''api_key'', JStr ''sk-good'')] ''api_key''))
       ''OPENAI_MODEL'' (dict_get [(''api_key'', JStr ''sk-good'')] ''model''))
       ''OPENAI_IMAGE_GENERATION_MODEL''
         (dict_get_default [(''api_key'', JStr ''sk-good'')] ''image_generation_model''
            (OPENAI_IMAGE_GENERATION_MODEL example_env)))
       ''OPENAI_TEMPERATURE''
         (dict_get_default [(''api_key'', JStr ''sk-good'')] ''temperature''
            (OPENAI_TEMPERATURE example_env)))"
    by (simp add: load_config_def download_as_text_def example_ctx_def 1 2
          del: json_dumps.simps)
  then have 3: "items (enrich example_env flat_json_loads None [''T2'' \<mapsto> ?s] example_ctx)
        ''OPENAI_MODEL'' = Some JNull"
    by (simp add: enrich_def Let_def items_ctx_set dict_get_def del: json_dumps.simps)
  have 4: "OPENAI_MODEL example_env = JStr ''gpt-3.5-turbo''"
    by (simp add: example_env_def)
  from 1 3 4 show ?thesis
    by (intro conjI)
qed

subsection \<open>Revocation of user tokens only\<close>

text \<open>
  Claim C6. For every \<^verbatim>\<open>tokens_revoked\<close> event that revokes no bot token, the handler
  deletes exactly the installation records of the named users of the workspace, and
  leaves the bucket (hence the record of the workspace), the bot installations and the
  log as they were.
\<close>

theorem user_token_revocation_keeps_config:
  assumes "revoked_bot event = []"
  shows "handle_tokens_revoked_events fault event ctx w
           = w\<lparr>installations := installations w
                - {enterprise_id ctx} \<times> {team_id ctx} \<times> set (revoked_oauth event)\<rparr>
       \<and> bucket (handle_tokens_revoked_events fault event ctx w) = bucket w"
  using assms by (simp add: tokens_revoked_without_bot)

text \<open>The statement at concrete values.\<close>

theorem user_token_revocation_keeps_config_witness:
  "handle_tokens_revoked_events None
     \<lparr>tokens = Some \<lparr>oauth = Some [''U1''], bot = Some []\<rparr>\<rparr> example_ctx example_world
   = \<lparr>bucket = [''T2'' \<mapsto> json_dumps example_record],
      installations = {(None, ''T2'', ''U2''), (None, ''T9'', ''U1'')},
      bots = {(None, ''T2''), (None, ''T9'')},
      log = []\<rparr>"
proof -
  let ?ev = "\<lparr>tokens = Some \<lparr>oauth = Some [''U1''], bot = Some []\<rparr>\<rparr>"
  have 1: "revoked_bot ?ev = []"
    by (simp add: revoked_bot_def)
  have 2: "revoked_oauth ?ev = [''U1'']"
    by (simp add: revoked_oauth_def)
  show ?thesis
    using user_token_revocation_keeps_config [OF 1, of None example_ctx example_world]
    by (simp add: 2 example_world_def example_ctx_def del: json_dumps.simps)
qed

subsection \<open>Revocation of the bot token, and uninstall\<close>

text \<open>
  Claim C7, as amended. For every \<^verbatim>\<open>tokens_revoked\<close> event that revokes a bot token, and
  for every \<^verbatim>\<open>app_uninstalled\<close> event, the handler asks the storage service to delete the
  blob of the workspace. When the service carries out the call, the blob is gone from
  the bucket afterwards and a later load for the same team id returns the record of a
  workspace that is not configured, whatever the decoder and whether or not that later
  read fails. When the delete call fails, the handler logs the failure and leaves the
  bucket as it was, so the record of the workspace stays.
\<close>

theorem revocation_deletes_config_unless_delete_fails:
  "(revoked_bot event \<noteq> [] \<and> team_id ctx' = team_id ctx \<longrightarrow>
      (fault = None \<longrightarrow>
         bucket (handle_tokens_revoked_events fault event ctx w) (team_id ctx) = None
         \<and> load_record E loads fault'
              (bucket (handle_tokens_revoked_events fault event ctx w)) ctx' = not_configured)
      \<and> (\<forall>e. fault = Some e \<longrightarrow>
         bucket (handle_tokens_revoked_events fault event ctx w) = bucket w
         \<and> log (handle_tokens_revoked_events fault event ctx w)
             = log w @ [DeleteFailed (team_id ctx) e]))
   \<and> (team_id ctx' = team_id ctx \<longrightarrow>
      (fault = None \<longrightarrow>
         bucket (handle_app_uninstalled_events fault ctx w) (team_id ctx) = None
         \<and> load_record E loads fault'
              (bucket (handle_app_uninstalled_events fault ctx w)) ctx' = not_configured)
      \<and> (\<forall>e. fault = Some e \<longrightarrow>
         bucket (handle_app_uninstalled_events fault ctx w) = bucket w
         \<and> log (handle_app_uninstalled_events fault ctx w)
             = log w @ [DeleteFailed (team_id ctx) e]))"
proof (intro conjI impI allI)
  assume a: "revoked_bot event \<noteq> [] \<and> team_id ctx' = team_id ctx" and f: "fault = None"
  from a f show 1: "bucket (handle_tokens_revoked_events fault event ctx w) (team_id ctx) = None"
    by (simp add: tokens_revoked_with_bot delete_openai_auth_key_done)
  from a 1 show "load_record E loads fault'
      (bucket (handle_tokens_revoked_events fault event ctx w)) ctx' = not_configured"
    by (intro load_record_absent) simp
next
  fix e
  assume a: "revoked_bot event \<noteq> [] \<and> team_id ctx' = team_id ctx" and f: "fault = Some e"
  from a f show "bucket (handle_tokens_revoked_events fault event ctx w) = bucket w"
    by (simp add: tokens_revoked_with_bot delete_openai_auth_key_failed)
  from a f show "log (handle_tokens_revoked_events fault event ctx w)
      = log w @ [DeleteFailed (team_id ctx) e]"
    by (simp add: tokens_revoked_with_bot delete_openai_auth_key_failed)
next
  assume a: "team_id ctx' = team_id ctx" and f: "fault = None"
  from f show 2: "bucket (handle_app_uninstalled_events fault ctx w) (team_id ctx) = None"
    by (simp add: app_uninstalled_unfold delete_openai_auth_key_done)
  from a 2 show "load_record E loads fault'
      (bucket (handle_app_uninstalled_events fault ctx w)) ctx' = not_configured"
    by (intro load_record_absent) simp
next
  fix e
  assume f: "fault = Some e"
  from f show "bucket (handle_app_uninstalled_events fault ctx w) = bucket w"
    by (simp add: app_uninstalled_unfold delete_openai_auth_key_failed)
  from f show "log (handle_app_uninstalled_events fault ctx w)
      = log w @ [DeleteFailed (team_id ctx) e]"
    by (simp add: app_uninstalled_unfold delete_openai_auth_key_failed)
qed

text \<open>
  The statement at concrete values: a bot token of \<open>T2\<close> is revoked, and \<open>T2\<close> uninstalls,
  once with the storage service at work and once with the service unavailable.
\<close>

theorem revocation_deletes_config_unless_delete_fails_witness:
  "load_record example_env flat_json_loads None
     (bucket (handle_tokens_revoked_events None
        \<lparr>tokens = Some \<lparr>oauth = Some [], bot = Some [''B1'']\<rparr>\<rparr> example_ctx example_world))
     example_ctx = not_configured
   \<and> load_record example_env flat_json_loads None
     (bucket (handle_app_uninstalled_events None example_ctx example_world))
     example_ctx = not_configured
   \<and> bucket (handle_tokens_revoked_events (Some ServiceUnavailable)
        \<lparr>tokens = Some \<lparr>oauth = Some [], bot = Some [''B1'']\<rparr>\<rparr> example_ctx example_world)
     = [''T2'' \<mapsto> json_dumps example_record]
   \<and> log (handle_app_uninstalled_events (Some ServiceUnavailable) example_ctx example_world)
     = [DeleteFailed ''T2'' ServiceUnavailable]"
proof -
  let ?ev = "\<lparr>tokens = Some \<lparr>oauth = Some [], bot = Some [''B1'']\<rparr>\<rparr>"
  have 1: "revoked_bot ?ev \<noteq> []"
    by (simp add: revoked_bot_def)
  note ok = revocation_deletes_config_unless_delete_fails
    [of ?ev example_ctx example_ctx None example_world example_env flat_json_loads None]
  note ko = revocation_deletes_config_unless_delete_fails
    [of ?ev example_ctx example_ctx "Some ServiceUnavailable" example_world
        example_env flat_json_loads None]
  have 2: "bucket example_world = [''T2'' \<mapsto> json_dumps example_record]"
    "log example_world = []" "team_id example_ctx = ''T2''"
    by (simp_all add: example_world_def example_ctx_def del: json_dumps.simps)
  from ok 1 have A: "load_record example_env flat_json_loads None
     (bucket (handle_tokens_revoked_events None ?ev example_ctx example_world))
     example_ctx = not_configured"
    "load_record example_env flat_json_loads None
     (bucket (handle_app_uninstalled_events None example_ctx example_world))
     example_ctx = not_configured"
    by simp_all
  from ko 1 have B: "bucket (handle_tokens_revoked_events (Some ServiceUnavailable)
        ?ev example_ctx example_world) = [''T2'' \<mapsto> json_dumps example_record]"
    "log (handle_app_uninstalled_events (Some ServiceUnavailable) example_ctx example_world)
     = [DeleteFailed ''T2'' ServiceUnavailable]"
    by (simp_all add: 2 del: json_dumps.simps)
  from A B show ?thesis
    by (intro conjI)
qed

text \<open>
  The claim as first stated, that after every such event a later load finds the workspace
  not configured, fails when the delete call fails: with the storage service unavailable
  during the uninstall of \<open>T2\<close>, or during the revocation of its bot token, the blob of
  \<open>T2\<close> is still in the bucket and a later load returns the key and the model stored in
  it.
\<close>

theorem failed_delete_keeps_config_counterexample:
  "load_record example_env flat_json_loads None
     (bucket (handle_app_uninstalled_events (Some ServiceUnavailable) example_ctx example_world))
     example_ctx
     = \<lparr>apiKey = JStr ''sk-good'', model = JStr ''gpt-x'',
        imageModel = JStr ''dall-e-3'', temperature = JNum ''1.0''\<rparr>
   \<and> load_record example_env flat_json_loads None
     (bucket (handle_tokens_revoked_events (Some ServiceUnavailable)
        \<lparr>tokens = Some \<lparr>oauth = Some [], bot = Some [''B1'']\<rparr>\<rparr> example_ctx example_world))
     example_ctx
     = \<lparr>apiKey = JStr ''sk-good'', model = JStr ''gpt-x'',
        imageModel = JStr ''dall-e-3'', temperature = JNum ''1.0''\<rparr>
   \<and> \<lparr>apiKey = JStr ''sk-good'', model = JStr ''gpt-x'',
        imageModel = JStr ''dall-e-3'', temperature = JNum ''1.0''\<rparr> \<noteq> not_configured"
proof -
  let ?ev = "\<lparr>tokens = Some \<lparr>oauth = Some [], bot = Some [''B1'']\<rparr>\<rparr>"
  let ?v = "[(''api_key'', JStr ''sk-good''), (''model'', JStr ''gpt-x'')]"
  let ?s = "json_dumps (JObj ?v)"
  have 1: "revoked_bot ?ev \<noteq> []"
    by (simp add: revoked_bot_def)
  have 2: "flat_json_loads ?s = Some (JObj ?v)"
    by (simp add: codec_defs)
  have 3: "startswith ?s ''{''"
    by (simp add: startswith_def)
  have "load_config example_env flat_json_loads None (bucket example_world) example_ctx
     = Inr (ctx_set (ctx_set (ctx_set (ctx_set example_ctx
       ''OPENAI_API_KEY'' (dict_get ?v ''api_key''))
       ''OPENAI_MODEL'' (dict_get ?v ''model''))
       ''OPENAI_IMAGE_GENERATION_MODEL''
         (dict_get_default ?v ''image_generation_model'' (OPENAI_IMAGE_GENERATION_MODEL example_env)))
       ''OPENAI_TEMPERATURE''
         (dict_get_default ?v ''temperature'' (OPENAI_TEMPERATURE example_env)))"
    by (simp add: load_config_def download_as_text_def example_ctx_def example_world_def
          example_record_def 2 3 del: json_dumps.simps)
  then have 4: "load_record example_env flat_json_loads None (bucket example_world) example_ctx
     = \<lparr>apiKey = JStr ''sk-good'', model = JStr ''gpt-x'',
        imageModel = JStr ''dall-e-3'', temperature = JNum ''1.0''\<rparr>"
    by (simp add: load_record_ok credentials_def ctx_get_ctx_set dict_get_def
          dict_get_default_def example_env_def)
  have 5: "bucket (handle_app_uninstalled_events (Some ServiceUnavailable) example_ctx
             example_world) = bucket example_world"
    by (simp add: app_uninstalled_unfold delete_openai_auth_key_failed)
  have 6: "bucket (handle_tokens_revoked_events (Some ServiceUnavailable) ?ev example_ctx
             example_world) = bucket example_world"
    using 1 by (simp add: tokens_revoked_with_bot delete_openai_auth_key_failed)
  have 7: "\<lparr>apiKey = JStr ''sk-good'', model = JStr ''gpt-x'',
        imageModel = JStr ''dall-e-3'', temperature = JNum ''1.0''\<rparr> \<noteq> not_configured"
    by (simp add: not_configured_def)
  from 4 5 6 7 show ?thesis
    by (simp only: simp_thms)
qed

subsection \<open>Running a revocation handler twice\<close>

text \<open>
  Claim C8. Both handlers may be run again on the state they left behind: the second run
  of the \<^verbatim>\<open>tokens_revoked\<close> handler, and of the \<^verbatim>\<open>app_uninstalled\<close> handler, for the same
  scope returns, with the bucket and the installation store unchanged. The exception that
  the storage service raises for the blob that is already deleted (or any other it
  raises) does not leave the handler: its only trace is one entry in the log.
\<close>

theorem revocation_handlers_idempotent:
  "(let w1 = handle_tokens_revoked_events None event ctx w;
        w2 = handle_tokens_revoked_events fault event ctx w1
    in w2 = w1 \<or> (\<exists>e. w2 = w1\<lparr>log := log w1 @ [DeleteFailed (team_id ctx) e]\<rparr>))
   \<and> (let w1 = handle_app_uninstalled_events None ctx w;
          w2 = handle_app_uninstalled_events fault ctx w1
      in \<exists>e. w2 = w1\<lparr>log := log w1 @ [DeleteFailed (team_id ctx) e]\<rparr>)"
proof (intro conjI)
  define S where "S = {enterprise_id ctx} \<times> {team_id ctx} \<times> set (revoked_oauth event)"
  show "let w1 = handle_tokens_revoked_events None event ctx w;
            w2 = handle_tokens_revoked_events fault event ctx w1
        in w2 = w1 \<or> (\<exists>e. w2 = w1\<lparr>log := log w1 @ [DeleteFailed (team_id ctx) e]\<rparr>)"
  proof (cases "revoked_bot event = []")
    case True
    then show ?thesis
      by (simp add: tokens_revoked_without_bot Let_def Diff_idemp)
  next
    case False
    define w1 where "w1 = handle_tokens_revoked_events None event ctx w"
    have w1: "w1 = delete_openai_auth_key None ctx
         (w\<lparr>installations := installations w - S,
            bots := bots w - {(enterprise_id ctx, team_id ctx)}\<rparr>)"
      using False by (simp add: w1_def S_def tokens_revoked_with_bot)
    have i: "installations w1 - S = installations w1"
      by (auto simp: w1 delete_openai_auth_key_stores)
    have b: "bots w1 - {(enterprise_id ctx, team_id ctx)} = bots w1"
      by (auto simp: w1 delete_openai_auth_key_stores)
    have absent: "bucket w1 (team_id ctx) = None"
      by (simp add: w1 delete_openai_auth_key_done)
    have "handle_tokens_revoked_events fault event ctx w1
            = delete_openai_auth_key fault ctx
                (w1\<lparr>installations := installations w1 - S,
                    bots := bots w1 - {(enterprise_id ctx, team_id ctx)}\<rparr>)"
      using False by (simp add: S_def tokens_revoked_with_bot)
    also have "\<dots> = delete_openai_auth_key fault ctx w1"
      by (simp add: i b)
    finally have "\<exists>e. handle_tokens_revoked_events fault event ctx w1
            = w1\<lparr>log := log w1 @ [DeleteFailed (team_id ctx) e]\<rparr>"
      using delete_openai_auth_key_absent [OF absent, of fault] by simp
    then show ?thesis
      by (simp add: Let_def w1_def)
  qed
next
  define w1 where "w1 = handle_app_uninstalled_events None ctx w"
  have w1: "w1 = delete_openai_auth_key None ctx
         (w\<lparr>bots := bots w - {(enterprise_id ctx, team_id ctx)},
            installations := installations w - {enterprise_id ctx} \<times> {team_id ctx} \<times> UNIV\<rparr>)"
    by (simp add: w1_def app_uninstalled_unfold)
  have i: "installations w1 - {enterprise_id ctx} \<times> {team_id ctx} \<times> UNIV = installations w1"
    by (auto simp: w1 delete_openai_auth_key_stores)
  have b: "bots w1 - {(enterprise_id ctx, team_id ctx)} = bots w1"
    by (auto simp: w1 delete_openai_auth_key_stores)
  have absent: "bucket w1 (team_id ctx) = None"
    by (simp add: w1 delete_openai_auth_key_done)
  have "handle_app_uninstalled_events fault ctx w1
          = delete_openai_auth_key fault ctx
              (w1\<lparr>bots := bots w1 - {(enterprise_id ctx, team_id ctx)},
                  installations := installations w1
                     - {enterprise_id ctx} \<times> {team_id ctx} \<times> UNIV\<rparr>)"
    by (simp add: app_uninstalled_unfold)
  also have "\<dots> = delete_openai_auth_key fault ctx w1"
    by (simp add: i b)
  finally have "\<exists>e. handle_app_uninstalled_events fault ctx w1
          = w1\<lparr>log := log w1 @ [DeleteFailed (team_id ctx) e]\<rparr>"
    using delete_openai_auth_key_absent [OF absent, of fault] by simp
  then show "let w1 = handle_app_uninstalled_events None ctx w;
          w2 = handle_app_uninstalled_events fault ctx w1
      in \<exists>e. w2 = w1\<lparr>log := log w1 @ [DeleteFailed (team_id ctx) e]\<rparr>"
    by (simp add: Let_def w1_def)
qed

text \<open>The statement at concrete values.\<close>

theorem revocation_handlers_idempotent_witness:
  "handle_app_uninstalled_events None example_ctx
     (handle_app_uninstalled_events None example_ctx example_world)
   = \<lparr>bucket = Map.empty,
      installations = {(None, ''T9'', ''U1'')},
      bots = {(None, ''T9'')},
      log = [DeleteFailed ''T2'' NotFound]\<rparr>
   \<and> (\<exists>e. handle_app_uninstalled_events (Some ServiceUnavailable) example_ctx
            (handle_app_uninstalled_events None example_ctx example_world)
          = \<lparr>bucket = Map.empty,
             installations = {(None, ''T9'', ''U1'')},
             bots = {(None, ''T9'')},
             log = [DeleteFailed ''T2'' e]\<rparr>)"
proof -
  note a = revocation_handlers_idempotent
    [of \<open>\<lparr>tokens = None\<rparr>\<close> example_ctx example_world "Some ServiceUnavailable"]
  have A: "\<exists>e. handle_app_uninstalled_events (Some ServiceUnavailable) example_ctx
            (handle_app_uninstalled_events None example_ctx example_world)
          = \<lparr>bucket = Map.empty,
             installations = {(None, ''T9'', ''U1'')},
             bots = {(None, ''T9'')},
             log = [DeleteFailed ''T2'' e]\<rparr>"
    using a by (simp add: Let_def example_uninstalled) (simp add: example_ctx_def)
  have B: "handle_app_uninstalled_events None example_ctx
     (handle_app_uninstalled_events None example_ctx example_world)
   = \<lparr>bucket = Map.empty,
      installations = {(None, ''T9'', ''U1'')},
      bots = {(None, ''T9'')},
      log = [DeleteFailed ''T2'' NotFound]\<rparr>"
    by (simp add: example_uninstalled)
       (simp add: app_uninstalled_unfold example_ctx_def delete_openai_auth_key_def
          blob_delete_def insert_Diff_if)
  from A B show ?thesis by simp
qed

subsection \<open>The middleware never stops the pipeline\<close>

text \<open>
  Claim C9. For every request, whether the load of the configuration succeeds, fails or
  finds no blob, the middleware raises nothing and does not stop the pipeline: the next
  stage is called, on a context that holds the six process-wide connection settings (API
  type, base, version, deployment id, organisation id, function-call module name).
\<close>

theorem set_gcs_openai_api_key_always_continues:
  "set_gcs_openai_api_key E loads fault b ctx next_stage = next_stage (enrich E loads fault b ctx)
   \<and> items (enrich E loads fault b ctx) ''OPENAI_API_TYPE'' = Some (OPENAI_API_TYPE E)
   \<and> items (enrich E loads fault b ctx) ''OPENAI_API_BASE'' = Some (OPENAI_API_BASE E)
   \<and> items (enrich E loads fault b ctx) ''OPENAI_API_VERSION'' = Some (OPENAI_API_VERSION E)
   \<and> items (enrich E loads fault b ctx) ''OPENAI_DEPLOYMENT_ID'' = Some (OPENAI_DEPLOYMENT_ID E)
   \<and> items (enrich E loads fault b ctx) ''OPENAI_ORG_ID'' = Some (OPENAI_ORG_ID E)
   \<and> items (enrich E loads fault b ctx) ''OPENAI_FUNCTION_CALL_MODULE_NAME''
       = Some (OPENAI_FUNCTION_CALL_MODULE_NAME E)"
  by (simp add: set_gcs_openai_api_key_def enrich_def Let_def items_ctx_set)

text \<open>The statement at concrete values.\<close>

theorem set_gcs_openai_api_key_always_continues_witness:
  "set_gcs_openai_api_key example_env flat_json_loads (Some ServiceUnavailable) Map.empty example_ctx
     (\<lambda>c. items c ''OPENAI_API_BASE'') = Some (JStr ''https://api.openai.com/v1'')"
  using set_gcs_openai_api_key_always_continues
    [of example_env flat_json_loads "Some ServiceUnavailable" Map.empty example_ctx
        "\<lambda>c. items c ''OPENAI_API_BASE''"]
  by (simp add: example_env_def)

subsection \<open>An empty revocation\<close>

text \<open>
  Claim C10. For every \<^verbatim>\<open>tokens_revoked\<close> event whose lists of revoked user tokens and of
  revoked bot tokens are both empty, the handler deletes nothing: the installation store,
  the bucket and the log are as they were.
\<close>

theorem empty_revocation_changes_nothing:
  assumes "revoked_oauth event = []" and "revoked_bot event = []"
  shows "handle_tokens_revoked_events fault event ctx w = w"
  using assms by (simp add: tokens_revoked_without_bot)

text \<open>The statement at concrete values.\<close>

theorem empty_revocation_changes_nothing_witness:
  "handle_tokens_revoked_events None
     \<lparr>tokens = Some \<lparr>oauth = Some [], bot = Some []\<rparr>\<rparr> example_ctx example_world
   = example_world"
proof -
  let ?ev = "\<lparr>tokens = Some \<lparr>oauth = Some [], bot = Some []\<rparr>\<rparr>"
  have 1: "revoked_oauth ?ev = []"
    by (simp add: revoked_oauth_def)
  have 2: "revoked_bot ?ev = []"
    by (simp add: revoked_bot_def)
  show ?thesis
    by (rule empty_revocation_changes_nothing [OF 1 2])
qed

end
